theory Spec2Isabelle
  imports Main "HOL-Library.Word"
begin

section \<open>Thread control and source-level stepping (proc/threads.go)\<close>

text \<open>
  A shallow embedding of \<^verbatim>\<open>proc/threads.go\<close>. The Go code mutates a thread struct, the
  process-wide breakpoint table and the traced process itself; here every function takes
  the state it touches and returns it updated, together with the Go \<^verbatim>\<open>error\<close> it
  returns (\<open>None\<close> is \<^verbatim>\<open>nil\<close>).

  Machine integers: \<^verbatim>\<open>uint64\<close> addresses and counters are 64-bit words, so \<open>+\<close> and
  \<open>-\<close> wrap as in Go. Go's \<^verbatim>\<open>int\<close> (line numbers, goroutine ids) is the 64-bit
  signed integer of the platform the file is written for (it decodes the goroutine pointer
  with \<^verbatim>\<open>binary.LittleEndian.Uint64\<close>); it is a 64-bit word read with \<open>sint\<close>, and
  \<^verbatim>\<open>lineno++\<close> wraps from the largest to the smallest value.
\<close>

type_synonym addr = "64 word"
type_synonym goint = "64 word"
type_synonym bp_ref = nat

subsection \<open>Errors\<close>

text \<open>
  \<^verbatim>\<open>ThreadBlockedError\<close> and \<^verbatim>\<open>GoroutineExitingError\<close> are declared in threads.go.
  \<^verbatim>\<open>BreakpointExistsError\<close> is the error type that \<^verbatim>\<open>setNextTempBreakpoints\<close> tests
  for; only its dynamic type is looked at. Every other error value (register or memory
  failure, missing type, ...) is a \<open>Failure\<close> with its message.
\<close>

datatype error =
    ThreadBlockedError
  | GoroutineExitingError goint
  | BreakpointExistsError
  | Failure string

subsection \<open>Data model\<close>

text \<open>\<^verbatim>\<open>*gosym.Func\<close>: only the name is read.\<close>

record Func =
  Name :: string

text \<open>\<^verbatim>\<open>type Location struct { PC uint64; File string; Line int; Fn *gosym.Func }\<close>\<close>

record Location =
  loc_PC :: addr
  loc_File :: string
  loc_Line :: goint
  loc_Fn :: "Func option"

text \<open>
  Modelled from the spec: the \<^verbatim>\<open>Breakpoint\<close> struct is declared outside threads.go. Its
  fields are those threads.go reads and writes, with the meaning of the spec's data model
  (address; originating file, line and function name; the temp flag; per-goroutine hit
  counters, a map from goroutine id to count; the total hit count). A key missing from
  \<open>HitCount\<close> reads as 0, as in a Go map.
\<close>

record Breakpoint =
  Addr :: addr
  File :: string
  Line :: goint
  FunctionName :: string
  Temp :: bool
  HitCount :: "goint \<rightharpoonup> 64 word"
  TotalHitCount :: "64 word"

text \<open>The value \<^verbatim>\<open>new(Breakpoint)\<close> points to: every field zero.\<close>

definition zeroBreakpoint :: Breakpoint where
  "zeroBreakpoint =
     \<lparr>Addr = 0, File = [], Line = 0, FunctionName = [], Temp = False,
      HitCount = Map.empty, TotalHitCount = 0\<rparr>"

text \<open>
  \<^verbatim>\<open>type Thread struct\<close>: the fields threads.go itself writes. \<^verbatim>\<open>CurrentBreakpoint\<close>
  is a pointer into the breakpoint table, so it is a reference, not a copy. The wait
  status and the OS-specific details belong to the state of the traced process below.
\<close>

record Thread =
  ID :: goint
  CurrentBreakpoint :: "bp_ref option"
  BreakpointConditionMet :: bool
  BreakpointConditionError :: "error option"
  singleStepping :: bool
  running :: bool

text \<open>The goroutine handle \<^verbatim>\<open>G\<close>: id and deferred-call PC (0 if none).\<close>

record G =
  G_ID :: goint
  G_DeferPC :: addr

text \<open>
  \<^verbatim>\<open>frame.FrameDescriptionEntry\<close>, read through \<^verbatim>\<open>Begin()\<close>, \<^verbatim>\<open>End()\<close> and the
  membership test \<^verbatim>\<open>Cover(pc)\<close>.
\<close>

record FrameDescriptionEntry =
  Begin :: addr
  End :: addr
  Cover :: "addr \<Rightarrow> bool"

text \<open>
  The process \<^verbatim>\<open>thread.dbp\<close>. \<^verbatim>\<open>Breakpoints\<close> is \<^verbatim>\<open>map[uint64]*Breakpoint\<close>: the
  table holds references, \<open>heap\<close> gives the struct behind each reference (Go pointers
  never dangle, so it is total) and \<open>next_ref\<close> is the next unused reference, handed
  out by \<^verbatim>\<open>new(Breakpoint)\<close>. \<open>os\<close> is the state of the traced process and its
  threads as the operating system holds it (registers, memory, wait status).

  Two fields record effects the Go code has on the outside: \<open>requests\<close> lists the
  addresses handed to the temp-breakpoint installer, oldest first, and \<open>logged\<close> the
  errors written to the log.
\<close>

record 'w Process =
  Breakpoints :: "addr \<rightharpoonup> bp_ref"
  heap :: "bp_ref \<Rightarrow> Breakpoint"
  next_ref :: bp_ref
  os :: 'w
  requests :: "addr list"
  logged :: "error list"

text \<open>
  \<^verbatim>\<open>ResumeMode\<close>: the two modes threads.go names; \<open>ModeOther\<close> is any other value of
  the type, the \<^verbatim>\<open>default\<close> branch of the switch.
\<close>

datatype ResumeMode = ModeStepInstruction | ModeResume | ModeOther

text \<open>
  A call of \<^verbatim>\<open>threadResume\<close> either returns its \<^verbatim>\<open>error\<close> or panics (deferred
  functions run in both cases).
\<close>

datatype resume_result = Returned "error option" | Panicked string

subsection \<open>Collaborators outside threads.go\<close>

text \<open>
  Everything threads.go calls but does not define is a parameter: the debug-info provider,
  the architecture, the register and memory access of the operating system, the condition
  evaluator, the goroutine decoder and the temp-breakpoint installer. Queries return a
  value; primitives that act on the traced process return the new \<open>os\<close> state with
  their error and touch neither the thread struct nor the breakpoint table. \<open>installer\<close>
  is \<^verbatim>\<open>dbp.SetTempBreakpoint\<close>, which may change the table, the heap and the traced
  process.

  \<^verbatim>\<open>GetG\<close> is defined in threads.go, but its body only chains collaborators that are not
  (register read, memory read, type lookup, the decoder \<^verbatim>\<open>parseG\<close>); the functions
  verified here depend on its result alone, so the result is the parameter.
\<close>

record ('w, 'r) ext =
  thread_PC :: "'w \<Rightarrow> error + addr"
  Registers :: "'w \<Rightarrow> error + 'r"
  regs_SetPC :: "'r \<Rightarrow> addr \<Rightarrow> 'w \<Rightarrow> error option \<times> 'w"
  blocked :: "'w \<Rightarrow> bool"
  singleStep :: "'w \<Rightarrow> error option \<times> 'w"
  resumeWithSig :: "goint \<Rightarrow> 'w \<Rightarrow> error option \<times> 'w"
  Clear :: "Breakpoint \<Rightarrow> 'w \<Rightarrow> error option \<times> 'w"
  createAndWriteBreakpoint :: "Location \<Rightarrow> bool \<Rightarrow> 8 word list \<Rightarrow> 'w \<Rightarrow> error option \<times> 'w"
  BreakpointInstruction :: "8 word list"
  BreakpointSize :: goint
  checkCondition :: "Breakpoint \<Rightarrow> 'w \<Rightarrow> bool \<times> error option"
  GetG :: "'w \<Rightarrow> error + G"
  ReturnAddress :: "'w \<Rightarrow> error + addr"
  PCToLine :: "addr \<Rightarrow> string \<times> goint \<times> Func option"
  PCToFunc :: "addr \<Rightarrow> Func option"
  LookupFunc :: "string \<Rightarrow> Func option"
  LineToPC :: "string \<Rightarrow> goint \<Rightarrow> error + addr"
  AllPCsBetween :: "addr \<Rightarrow> addr \<Rightarrow> string \<Rightarrow> addr list"
  FDEForPC :: "addr \<Rightarrow> error + FrameDescriptionEntry"
  installer :: "addr \<Rightarrow> 'w Process \<Rightarrow> error option \<times> 'w Process"

subsection \<open>Resuming a thread\<close>

text \<open>
  The closure deferred by \<^verbatim>\<open>threadResume\<close>: writes the breakpoint back and logs a
  failure. It reads the breakpoint's fields when it runs.
\<close>

definition restoreBreakpoint :: "('w, 'r) ext \<Rightarrow> bp_ref \<Rightarrow> 'w Process \<Rightarrow> 'w Process" where
  "restoreBreakpoint x bp dbp =
     (let b = heap dbp bp;
          fn = LookupFunc x (FunctionName b);
          loc = \<lparr>loc_PC = Addr b, loc_File = File b, loc_Line = Line b, loc_Fn = fn\<rparr>
      in case createAndWriteBreakpoint x loc (Temp b) (BreakpointInstruction x) (os dbp) of
           (None, w) \<Rightarrow> dbp\<lparr>os := w\<rparr>
         | (Some nerr, w) \<Rightarrow> dbp\<lparr>os := w, logged := logged dbp @ [nerr]\<rparr>)"

text \<open>\<^verbatim>\<open>threadResume\<close> from ``Clear state'' on: the reset and the dispatch on the mode.\<close>

definition resumeDispatch ::
  "('w, 'r) ext \<Rightarrow> Thread \<Rightarrow> ResumeMode \<Rightarrow> goint \<Rightarrow> 'w Process \<Rightarrow> resume_result \<times> Thread \<times> 'w Process" where
  "resumeDispatch x thread mode sig dbp =
     (let thread = thread\<lparr>CurrentBreakpoint := None, BreakpointConditionMet := False,
                           BreakpointConditionError := None, running := True\<rparr>
      in case mode of
           ModeStepInstruction \<Rightarrow>
             (let thread = thread\<lparr>singleStepping := True\<rparr>;
                  (err, w) = singleStep x (os dbp)
              in (Returned err, thread\<lparr>singleStepping := False, running := False\<rparr>, dbp\<lparr>os := w\<rparr>))
         | ModeResume \<Rightarrow>
             (let (err, w) = resumeWithSig x sig (os dbp)
              in (Returned err, thread, dbp\<lparr>os := w\<rparr>))
         | ModeOther \<Rightarrow>
             (Panicked ''unknown mode passed to threadResume'', thread, dbp))"

definition threadResume ::
  "('w, 'r) ext \<Rightarrow> Thread \<Rightarrow> ResumeMode \<Rightarrow> goint \<Rightarrow> 'w Process \<Rightarrow> resume_result \<times> Thread \<times> 'w Process" where
  "threadResume x thread mode sig dbp =
     (case CurrentBreakpoint thread of
        None \<Rightarrow> resumeDispatch x thread mode sig dbp
      | Some bp \<Rightarrow>
          (case Clear x (heap dbp bp) (os dbp) of
             (Some err, w) \<Rightarrow> (Returned (Some err), thread, dbp\<lparr>os := w\<rparr>)
           | (None, w) \<Rightarrow>
               (case resumeDispatch x thread mode sig (dbp\<lparr>os := w\<rparr>) of
                  (r, thread', dbp') \<Rightarrow> (r, thread', restoreBreakpoint x bp dbp'))))"

definition Continue :: "('w, 'r) ext \<Rightarrow> Thread \<Rightarrow> 'w Process \<Rightarrow> resume_result \<times> Thread \<times> 'w Process" where
  "Continue x thread dbp = threadResume x thread ModeResume 0 dbp"

definition ContinueWithSignal ::
  "('w, 'r) ext \<Rightarrow> Thread \<Rightarrow> goint \<Rightarrow> 'w Process \<Rightarrow> resume_result \<times> Thread \<times> 'w Process" where
  "ContinueWithSignal x thread sig dbp = threadResume x thread ModeResume sig dbp"

definition StepInstruction :: "('w, 'r) ext \<Rightarrow> Thread \<Rightarrow> 'w Process \<Rightarrow> resume_result \<times> Thread \<times> 'w Process" where
  "StepInstruction x thread dbp = threadResume x thread ModeStepInstruction 0 dbp"

subsection \<open>The breakpoint a thread is stopped at\<close>

text \<open>\<^verbatim>\<open>thread.SetPC\<close>: read the registers, then write the PC through them.\<close>

definition SetPC :: "('w, 'r) ext \<Rightarrow> addr \<Rightarrow> 'w \<Rightarrow> error option \<times> 'w" where
  "SetPC x pc w =
     (case Registers x w of
        Inl err \<Rightarrow> (Some err, w)
      | Inr regs \<Rightarrow> regs_SetPC x regs pc w)"

definition onTriggeredBreakpoint :: "Thread \<Rightarrow> bool" where
  "onTriggeredBreakpoint thread \<longleftrightarrow> CurrentBreakpoint thread \<noteq> None \<and> BreakpointConditionMet thread"

definition onTriggeredTempBreakpoint :: "Thread \<Rightarrow> 'w Process \<Rightarrow> bool" where
  "onTriggeredTempBreakpoint thread dbp \<longleftrightarrow>
     onTriggeredBreakpoint thread \<and>
     (case CurrentBreakpoint thread of None \<Rightarrow> False | Some bp \<Rightarrow> Temp (heap dbp bp))"

text \<open>\<^verbatim>\<open>bp.HitCount[id]++\<close> and \<^verbatim>\<open>bp.TotalHitCount++\<close> on the struct behind a reference.\<close>

definition incHitCount :: "bp_ref \<Rightarrow> goint \<Rightarrow> 'w Process \<Rightarrow> 'w Process" where
  "incHitCount bp gid dbp =
     dbp\<lparr>heap := (heap dbp)(bp := (heap dbp bp)
       \<lparr>HitCount := (HitCount (heap dbp bp))
          (gid \<mapsto> (case HitCount (heap dbp bp) gid of None \<Rightarrow> 0 | Some c \<Rightarrow> c) + 1)\<rparr>)\<rparr>"

definition incTotalHitCount :: "bp_ref \<Rightarrow> 'w Process \<Rightarrow> 'w Process" where
  "incTotalHitCount bp dbp =
     dbp\<lparr>heap := (heap dbp)(bp := (heap dbp bp)
       \<lparr>TotalHitCount := TotalHitCount (heap dbp bp) + 1\<rparr>)\<rparr>"

text \<open>
  \<^verbatim>\<open>SetCurrentBreakpoint\<close>. The table is looked up at
  \<^verbatim>\<open>pc - uint64(BreakpointSize())\<close>; the conversion of a 64-bit \<^verbatim>\<open>int\<close> to
  \<^verbatim>\<open>uint64\<close> keeps the bits.
\<close>

definition SetCurrentBreakpoint ::
  "('w, 'r) ext \<Rightarrow> Thread \<Rightarrow> 'w Process \<Rightarrow> error option \<times> Thread \<times> 'w Process" where
  "SetCurrentBreakpoint x thread dbp =
     (case thread_PC x (os dbp) of
        Inl err \<Rightarrow> (Some err, thread, dbp)
      | Inr pc \<Rightarrow>
          (case Breakpoints dbp (pc - BreakpointSize x) of
             None \<Rightarrow> (None, thread, dbp)
           | Some bp \<Rightarrow>
               (let thread = thread\<lparr>CurrentBreakpoint := Some bp\<rparr>
                in case SetPC x (Addr (heap dbp bp)) (os dbp) of
                     (Some err, w) \<Rightarrow> (Some err, thread, dbp\<lparr>os := w\<rparr>)
                   | (None, w) \<Rightarrow>
                       (let dbp = dbp\<lparr>os := w\<rparr>;
                            (met, cerr) = checkCondition x (heap dbp bp) (os dbp);
                            thread = thread\<lparr>BreakpointConditionMet := met,
                                             BreakpointConditionError := cerr\<rparr>
                        in if onTriggeredBreakpoint thread then
                             (let dbp = (case GetG x (os dbp) of
                                           Inr g \<Rightarrow> incHitCount bp (G_ID g) dbp
                                         | Inl err \<Rightarrow> dbp)
                              in (None, thread, incTotalHitCount bp dbp))
                           else (None, thread, dbp)))))"

subsection \<open>Breakpoints for the next line\<close>

text \<open>
  \<^verbatim>\<open>thread.dbp.SetTempBreakpoint(addr)\<close>: the installer runs and the address it was
  given is recorded.
\<close>

definition SetTempBreakpoint :: "('w, 'r) ext \<Rightarrow> addr \<Rightarrow> 'w Process \<Rightarrow> error option \<times> 'w Process" where
  "SetTempBreakpoint x a dbp =
     (case installer x a dbp of
        (err, dbp') \<Rightarrow> (err, dbp'\<lparr>requests := requests dbp @ [a]\<rparr>))"

text \<open>
  \<^verbatim>\<open>setNextTempBreakpoints\<close>: the loop over \<^verbatim>\<open>pcs\<close>. The type assertion
  \<^verbatim>\<open>err.(BreakpointExistsError)\<close> succeeds exactly for that error.
\<close>

fun setNextTempBreakpoints ::
  "('w, 'r) ext \<Rightarrow> addr \<Rightarrow> addr list \<Rightarrow> 'w Process \<Rightarrow> error option \<times> 'w Process" where
  "setNextTempBreakpoints x curpc [] dbp = (None, dbp)"
| "setNextTempBreakpoints x curpc (pc # pcs) dbp =
     (if pc = curpc \<or> pc = curpc - 1 then setNextTempBreakpoints x curpc pcs dbp
      else case SetTempBreakpoint x pc dbp of
             (None, dbp') \<Rightarrow> setNextTempBreakpoints x curpc pcs dbp'
           | (Some err, dbp') \<Rightarrow>
               (if err = BreakpointExistsError then setNextTempBreakpoints x curpc pcs dbp'
                else (Some err, dbp')))"

text \<open>\<^verbatim>\<open>cnext\<close>: every line of the frame and the return address.\<close>

definition cnext ::
  "('w, 'r) ext \<Rightarrow> addr \<Rightarrow> FrameDescriptionEntry \<Rightarrow> string \<Rightarrow> 'w Process \<Rightarrow> error option \<times> 'w Process" where
  "cnext x curpc fde file dbp =
     (let pcs = AllPCsBetween x (Begin fde) (End fde) file
      in case ReturnAddress x (os dbp) of
           Inl err \<Rightarrow> (Some err, dbp)
         | Inr ret \<Rightarrow> setNextTempBreakpoints x curpc (pcs @ [ret]) dbp)"

text \<open>
  The scan of \<^verbatim>\<open>next\<close> for the first line after the deferred function's that has a PC:
  \<^verbatim>\<open>for { lineno++; dpc, _, err := LineToPC(f, lineno); if err == nil { ...; break } }\<close>.
  The loop has no other exit, so the scan is a partial function: \<open>None\<close> is a loop that
  never ends, \<open>Some (lineno, dpc)\<close> the values of the two variables when it is left.
\<close>

partial_function (option) scanDeferLine ::
  "('w, 'r) ext \<Rightarrow> string \<Rightarrow> goint \<Rightarrow> (goint \<times> addr) option" where
  "scanDeferLine x f lineno =
     (case LineToPC x f (lineno + 1) of
        Inr dpc \<Rightarrow> Some (lineno + 1, dpc)
      | Inl err \<Rightarrow> scanDeferLine x f (lineno + 1))"

declare scanDeferLine.simps [code]

text \<open>
  The block \<^verbatim>\<open>if g.DeferPC != 0 { ... }\<close> of \<^verbatim>\<open>next\<close>: once the scan has found
  \<open>dpc\<close>, a fresh \<^verbatim>\<open>new(Breakpoint)\<close> is stored in the table at \<^verbatim>\<open>g.DeferPC\<close>, its
  removal is deferred, and a temp breakpoint is requested at \<open>dpc\<close>. The result is the
  error of that request (\<^verbatim>\<open>return err\<close>) or \<open>None\<close> (\<^verbatim>\<open>break\<close>).
\<close>

definition fakeBreakpoint :: "addr \<Rightarrow> 'w Process \<Rightarrow> 'w Process" where
  "fakeBreakpoint a dbp =
     dbp\<lparr>Breakpoints := (Breakpoints dbp)(a \<mapsto> next_ref dbp),
         heap := (heap dbp)(next_ref dbp := zeroBreakpoint),
         next_ref := Suc (next_ref dbp)\<rparr>"

definition setDeferBreakpoint ::
  "('w, 'r) ext \<Rightarrow> G \<Rightarrow> 'w Process \<Rightarrow> (error option \<times> 'w Process) option" where
  "setDeferBreakpoint x g dbp =
     (if G_DeferPC g \<noteq> 0 then
        (case PCToLine x (G_DeferPC g) of
           (f, lineno, fn) \<Rightarrow>
             (case scanDeferLine x f lineno of
                None \<Rightarrow> None
              | Some (lineno', dpc) \<Rightarrow>
                  Some (SetTempBreakpoint x dpc (fakeBreakpoint (G_DeferPC g) dbp))))
      else Some (None, dbp))"

text \<open>
  The deferred \<^verbatim>\<open>delete(thread.dbp.Breakpoints, g.DeferPC)\<close>; it was registered exactly
  when \<^verbatim>\<open>g.DeferPC != 0\<close> and the scan ended.
\<close>

definition removeDeferBreakpoint :: "G \<Rightarrow> 'w Process \<Rightarrow> 'w Process" where
  "removeDeferBreakpoint g dbp =
     (if G_DeferPC g \<noteq> 0 then dbp\<lparr>Breakpoints := (Breakpoints dbp)(G_DeferPC g := None)\<rparr>
      else dbp)"

text \<open>\<^verbatim>\<open>next\<close> from \<^verbatim>\<open>ret, err := thread.ReturnAddress()\<close> to its last line.\<close>

definition isGoexit :: "Func option \<Rightarrow> bool" where
  "isGoexit fn = (case fn of None \<Rightarrow> False | Some f \<Rightarrow> Name f = ''runtime.goexit'')"

definition nextFromReturn ::
  "('w, 'r) ext \<Rightarrow> Location \<Rightarrow> FrameDescriptionEntry \<Rightarrow> addr list \<Rightarrow> 'w Process
     \<Rightarrow> error option \<times> 'w Process" where
  "nextFromReturn x curloc fde pcs dbp =
     (case ReturnAddress x (os dbp) of
        Inl err \<Rightarrow> (Some err, dbp)
      | Inr ret \<Rightarrow>
          (let covered = list_ex (Cover fde) pcs
           in if \<not> covered \<and> isGoexit (PCToFunc x ret) then
                (case GetG x (os dbp) of
                   Inl err \<Rightarrow> (Some err, dbp)
                 | Inr g \<Rightarrow> (Some (GoroutineExitingError (G_ID g)), dbp))
              else setNextTempBreakpoints x (loc_PC curloc) (pcs @ [ret]) dbp))"

text \<open>
  \<^verbatim>\<open>next\<close> (the name is an Isabelle keyword, hence \<open>thread_next\<close>). \<open>None\<close>: the call
  does not return.
\<close>

definition thread_next ::
  "('w, 'r) ext \<Rightarrow> Location \<Rightarrow> FrameDescriptionEntry \<Rightarrow> 'w Process
     \<Rightarrow> (error option \<times> 'w Process) option" where
  "thread_next x curloc fde dbp =
     (let pcs = AllPCsBetween x (Begin fde) (End fde - 1) (loc_File curloc)
      in case GetG x (os dbp) of
           Inl err \<Rightarrow> Some (Some err, dbp)
         | Inr g \<Rightarrow>
             (case setDeferBreakpoint x g dbp of
                None \<Rightarrow> None
              | Some (Some err, dbp1) \<Rightarrow> Some (Some err, removeDeferBreakpoint g dbp1)
              | Some (None, dbp1) \<Rightarrow>
                  (case nextFromReturn x curloc fde pcs dbp1 of
                     (r, dbp2) \<Rightarrow> Some (r, removeDeferBreakpoint g dbp2))))"

text \<open>\<^verbatim>\<open>thread.Location()\<close>\<close>

definition threadLocation :: "('w, 'r) ext \<Rightarrow> 'w Process \<Rightarrow> error + Location" where
  "threadLocation x dbp =
     (case thread_PC x (os dbp) of
        Inl err \<Rightarrow> Inl err
      | Inr pc \<Rightarrow>
          (case PCToLine x pc of
             (f, l, fn) \<Rightarrow> Inr \<lparr>loc_PC = pc, loc_File = f, loc_Line = l, loc_Fn = fn\<rparr>))"

text \<open>
  \<^verbatim>\<open>filepath.Ext\<close> of the Go library: the suffix from the last dot of the last path
  element, empty if there is none. The scan runs from the end of the path.
\<close>

fun extScan :: "string \<Rightarrow> string \<Rightarrow> string" where
  "extScan [] suffix = []"
| "extScan (c # front) suffix =
     (if c = CHR ''/'' then []
      else if c = CHR ''.'' then c # suffix
      else extScan front (c # suffix))"

definition filepath_Ext :: "string \<Rightarrow> string" where
  "filepath_Ext path = extScan (rev path) []"

definition setNextBreakpoints ::
  "('w, 'r) ext \<Rightarrow> 'w Process \<Rightarrow> (error option \<times> 'w Process) option" where
  "setNextBreakpoints x dbp =
     (if blocked x (os dbp) then Some (Some ThreadBlockedError, dbp)
      else case threadLocation x dbp of
             Inl err \<Rightarrow> Some (Some err, dbp)
           | Inr loc \<Rightarrow>
               (case FDEForPC x (loc_PC loc) of
                  Inl err \<Rightarrow> Some (Some err, dbp)
                | Inr fde \<Rightarrow>
                    (if filepath_Ext (loc_File loc) = ''.go'' then thread_next x loc fde dbp
                     else Some (cnext x (loc_PC loc) fde (loc_File loc) dbp))))"

subsection \<open>A small traced process\<close>

text \<open>
  A concrete instance of the collaborators, on which the theorems below are exercised.
  The traced process is a PC register, the addresses that hold a trap instruction and
  whether the thread is parked. The trap is one byte. The line table of the frame
  \<open>[0x100, 0x200)\<close> has the PCs \<open>0x110\<close>, \<open>0x130\<close> and \<open>0x150\<close>, and \<open>0x200\<close>, the
  first PC after the frame, starts the next function of the same file; the frame returns to
  \<open>0x300\<close>. The installer refuses an address the table already has and otherwise
  adds a temp breakpoint there.
\<close>

record machine =
  m_pc :: addr
  m_traps :: "addr list"
  m_parked :: bool

definition tableInstaller :: "addr \<Rightarrow> 'w Process \<Rightarrow> error option \<times> 'w Process" where
  "tableInstaller a dbp =
     (case Breakpoints dbp a of
        Some bp \<Rightarrow> (Some BreakpointExistsError, dbp)
      | None \<Rightarrow>
          (None, dbp\<lparr>Breakpoints := (Breakpoints dbp)(a \<mapsto> next_ref dbp),
                     heap := (heap dbp)(next_ref dbp := zeroBreakpoint\<lparr>Addr := a, Temp := True\<rparr>),
                     next_ref := Suc (next_ref dbp)\<rparr>))"

definition demoFrame :: FrameDescriptionEntry where
  "demoFrame = \<lparr>Begin = 0x100, End = 0x200, Cover = (\<lambda>p. 0x100 \<le> p \<and> p < 0x200)\<rparr>"

definition demo :: "(machine, unit) ext" where
  "demo =
     \<lparr>thread_PC = (\<lambda>m. Inr (m_pc m)),
      Registers = (\<lambda>m. Inr ()),
      regs_SetPC = (\<lambda>r a m. (None, m\<lparr>m_pc := a\<rparr>)),
      blocked = m_parked,
      singleStep = (\<lambda>m. (None, m\<lparr>m_pc := m_pc m + 1\<rparr>)),
      resumeWithSig = (\<lambda>sig m. (None, m\<lparr>m_pc := 0x151\<rparr>)),
      Clear = (\<lambda>b m. (None, m\<lparr>m_traps := removeAll (Addr b) (m_traps m)\<rparr>)),
      createAndWriteBreakpoint = (\<lambda>loc t instr m. (None, m\<lparr>m_traps := loc_PC loc # m_traps m\<rparr>)),
      BreakpointInstruction = [0xCC],
      BreakpointSize = 1,
      checkCondition = (\<lambda>b m. (True, None)),
      GetG = (\<lambda>m. Inr \<lparr>G_ID = 7, G_DeferPC = 0\<rparr>),
      ReturnAddress = (\<lambda>m. Inr 0x300),
      PCToLine = (\<lambda>a. (''main.go'', if a = 0x400 then 42 else 10, Some \<lparr>Name = ''main.main''\<rparr>)),
      PCToFunc = (\<lambda>a. Some \<lparr>Name = ''main.main''\<rparr>),
      LookupFunc = (\<lambda>n. Some \<lparr>Name = n\<rparr>),
      LineToPC = (\<lambda>f l. if l = 43 then Inr 0x500 else Inl (Failure ''no code at this line'')),
      AllPCsBetween = (\<lambda>lo hi f. filter (\<lambda>p. lo \<le> p \<and> p \<le> hi) [0x110, 0x130, 0x150, 0x200]),
      FDEForPC = (\<lambda>a. Inr demoFrame),
      installer = tableInstaller\<rparr>"

definition demoThread :: Thread where
  "demoThread =
     \<lparr>ID = 1, CurrentBreakpoint = None, BreakpointConditionMet = False,
      BreakpointConditionError = None, singleStepping = False, running = False\<rparr>"

text \<open>A user breakpoint at \<open>0x130\<close> with reference 0; the thread has just hit its trap.\<close>

definition demoBreakpoint :: Breakpoint where
  "demoBreakpoint =
     \<lparr>Addr = 0x130, File = ''main.go'', Line = 12, FunctionName = ''main.main'', Temp = False,
      HitCount = Map.empty, TotalHitCount = 0\<rparr>"

definition demoProcess :: "machine Process" where
  "demoProcess =
     \<lparr>Breakpoints = [0x130 \<mapsto> 0],
      heap = (\<lambda>r. if r = 0 then demoBreakpoint else zeroBreakpoint),
      next_ref = 1,
      os = \<lparr>m_pc = 0x131, m_traps = [0x130], m_parked = False\<rparr>,
      requests = [],
      logged = []\<rparr>"

text \<open>The same process with no breakpoint and the thread stopped at \<open>0x130\<close>.\<close>

definition plainProcess :: "machine Process" where
  "plainProcess =
     \<lparr>Breakpoints = Map.empty,
      heap = (\<lambda>r. zeroBreakpoint),
      next_ref = 0,
      os = \<lparr>m_pc = 0x130, m_traps = [], m_parked = False\<rparr>,
      requests = [],
      logged = []\<rparr>"

text \<open>The plain process with its thread parked in the scheduler.\<close>

definition parkedProcess :: "machine Process" where
  "parkedProcess = plainProcess\<lparr>os := \<lparr>m_pc = 0x130, m_traps = [], m_parked = True\<rparr>\<rparr>"

text \<open>A condition evaluator that reports an error together with the result \<open>true\<close>.\<close>

definition faultyCond :: "(machine, unit) ext" where
  "faultyCond = demo\<lparr>checkCondition := (\<lambda>b m. (True, Some (Failure ''error evaluating expression'')))\<rparr>"


text \<open>
  The thread stopped at the breakpoint of \<open>demoProcess\<close>, after
  \<^verbatim>\<open>SetCurrentBreakpoint\<close> has rewound its PC.
\<close>

definition stoppedThread :: Thread where
  "stoppedThread = demoThread\<lparr>CurrentBreakpoint := Some 0, BreakpointConditionMet := True\<rparr>"

definition stoppedProcess :: "machine Process" where
  "stoppedProcess = demoProcess\<lparr>os := \<lparr>m_pc = 0x130, m_traps = [0x130], m_parked = False\<rparr>\<rparr>"

text \<open>Collaborators whose breakpoint writer fails.\<close>

definition brokenRestore :: "(machine, unit) ext" where
  "brokenRestore =
     demo\<lparr>createAndWriteBreakpoint :=
            (\<lambda>loc t instr m. (Some (Failure ''could not write breakpoint''), m))\<rparr>"







text \<open>A file whose only line with code is line 42, at \<open>0x400\<close>.\<close>

definition oneLine :: "(machine, unit) ext" where
  "oneLine =
     demo\<lparr>LineToPC := (\<lambda>f l. if l = 42 then Inr 0x400 else Inl (Failure ''no code at this line''))\<rparr>"


text \<open>The same line table read as a C file: the thread is in \<^verbatim>\<open>main.c\<close>.\<close>

definition cSource :: "(machine, unit) ext" where
  "cSource = demo\<lparr>PCToLine := (\<lambda>a. (''main.c'', 10, Some \<lparr>Name = ''main''\<rparr>))\<rparr>"


section \<open>Properties\<close>

subsection \<open>SetCurrentBreakpoint\<close>

text \<open>
  C10. When the thread's PC minus the trap size is not a key of the breakpoint table,
  \<^verbatim>\<open>SetCurrentBreakpoint\<close> returns \<^verbatim>\<open>nil\<close> and changes nothing: the thread struct
  (current breakpoint, condition result and error), the traced process with its PC, the
  table and every breakpoint with its counters are the ones it was given.
\<close>

theorem SetCurrentBreakpoint_unknown_pc:
  assumes "thread_PC x (os dbp) = Inr pc"
    and "Breakpoints dbp (pc - BreakpointSize x) = None"
  shows "SetCurrentBreakpoint x thread dbp = (None, thread, dbp)"
  using assms by (simp add: SetCurrentBreakpoint_def)

theorem SetCurrentBreakpoint_unknown_pc_witness:
  "thread_PC demo (os plainProcess) = Inr 0x130 \<and>
   Breakpoints plainProcess (0x130 - BreakpointSize demo) = None \<and>
   SetCurrentBreakpoint demo demoThread plainProcess = (None, demoThread, plainProcess)"
  using SetCurrentBreakpoint_unknown_pc [of demo plainProcess "0x130" demoThread]
  by (simp add: demo_def plainProcess_def)

text \<open>
  C3. A thread whose PC is the address of a table breakpoint plus the trap size: the
  breakpoint is recorded as \<^verbatim>\<open>CurrentBreakpoint\<close> and the PC is rewound to the
  breakpoint's address. The rewind is the register write \<^verbatim>\<open>SetPC(bp.Addr)\<close>; where the
  operating system performs it (no error, and the register then reads what was written),
  the call returns \<^verbatim>\<open>nil\<close> and the thread's PC is the breakpoint's address.
\<close>

theorem SetCurrentBreakpoint_at_trap:
  assumes "Breakpoints dbp a = Some bp" and "Addr (heap dbp bp) = a"
    and "thread_PC x (os dbp) = Inr (a + BreakpointSize x)"
    and "SetPC x a (os dbp) = (None, w)" and "thread_PC x w = Inr a"
    and "SetCurrentBreakpoint x thread dbp = (r, thread', dbp')"
  shows "r = None \<and> CurrentBreakpoint thread' = Some bp \<and> thread_PC x (os dbp') = Inr a"
  using assms
  by (auto simp: SetCurrentBreakpoint_def Let_def incHitCount_def incTotalHitCount_def
           split: prod.splits if_splits sum.splits)

theorem SetCurrentBreakpoint_at_trap_witness:
  "Breakpoints demoProcess 0x130 = Some 0 \<and> Addr (heap demoProcess 0) = 0x130 \<and>
   thread_PC demo (os demoProcess) = Inr (0x130 + BreakpointSize demo) \<and>
   fst (SetCurrentBreakpoint demo demoThread demoProcess) = None \<and>
   CurrentBreakpoint (fst (snd (SetCurrentBreakpoint demo demoThread demoProcess))) = Some 0 \<and>
   thread_PC demo (os (snd (snd (SetCurrentBreakpoint demo demoThread demoProcess)))) = Inr 0x130"
proof -
  obtain r t d where s: "SetCurrentBreakpoint demo demoThread demoProcess = (r, t, d)"
    by (cases "SetCurrentBreakpoint demo demoThread demoProcess") auto
  have h1: "Breakpoints demoProcess 0x130 = Some 0"
    by (simp add: demoProcess_def)
  have h2: "Addr (heap demoProcess 0) = 0x130"
    by (simp add: demoProcess_def demoBreakpoint_def)
  have h3: "thread_PC demo (os demoProcess) = Inr (0x130 + BreakpointSize demo)"
    by (simp add: demo_def demoProcess_def)
  have h4: "SetPC demo 0x130 (os demoProcess) = (None, \<lparr>m_pc = 0x130, m_traps = [0x130], m_parked = False\<rparr>)"
    by (simp add: SetPC_def demo_def demoProcess_def)
  have h5: "thread_PC demo \<lparr>m_pc = 0x130, m_traps = [0x130], m_parked = False\<rparr> = Inr 0x130"
    by (simp add: demo_def)
  from SetCurrentBreakpoint_at_trap [OF h1 h2 h3 h4 h5 s] h1 h2 h3 show ?thesis
    by (simp add: s)
qed

text \<open>
  When the register write fails, the breakpoint is still recorded and the error of the
  write is returned; nothing else happens.
\<close>

lemma SetCurrentBreakpoint_SetPC_fails:
  assumes "Breakpoints dbp a = Some bp" and "Addr (heap dbp bp) = a"
    and "thread_PC x (os dbp) = Inr (a + BreakpointSize x)"
    and "SetPC x a (os dbp) = (Some err, w)"
  shows "SetCurrentBreakpoint x thread dbp =
           (Some err, thread\<lparr>CurrentBreakpoint := Some bp\<rparr>, dbp\<lparr>os := w\<rparr>)"
  using assms by (simp add: SetCurrentBreakpoint_def)

text \<open>
  C4, as the code has it. The condition evaluator returns a result and an error, both are
  stored, and the counters follow the stored result alone: when it is true the total
  counter of the breakpoint goes up by one, and so does the counter of the resolved
  goroutine, unless the goroutine cannot be resolved, in which case only the total counter
  moves; when it is false no counter of any breakpoint changes. No other breakpoint is
  touched. The error plays no part: an evaluator that reports an error with the result
  true makes the counters move.
\<close>

theorem SetCurrentBreakpoint_hit_counters:
  assumes "thread_PC x (os dbp) = Inr pc"
    and "Breakpoints dbp (pc - BreakpointSize x) = Some bp"
    and "SetPC x (Addr (heap dbp bp)) (os dbp) = (None, w)"
    and "checkCondition x (heap dbp bp) w = (met, cerr)"
    and "SetCurrentBreakpoint x thread dbp = (r, thread', dbp')"
  shows "BreakpointConditionMet thread' = met \<and> BreakpointConditionError thread' = cerr \<and>
     (\<forall>b. b \<noteq> bp \<longrightarrow> heap dbp' b = heap dbp b) \<and>
     (met \<longrightarrow>
        TotalHitCount (heap dbp' bp) = TotalHitCount (heap dbp bp) + 1 \<and>
        (case GetG x w of
           Inr g \<Rightarrow>
             HitCount (heap dbp' bp) =
               (HitCount (heap dbp bp))
                 (G_ID g \<mapsto> (case HitCount (heap dbp bp) (G_ID g) of None \<Rightarrow> 0 | Some c \<Rightarrow> c) + 1)
         | Inl e \<Rightarrow> HitCount (heap dbp' bp) = HitCount (heap dbp bp))) \<and>
     (\<not> met \<longrightarrow> heap dbp' = heap dbp)"
  using assms
  by (auto simp: SetCurrentBreakpoint_def Let_def incHitCount_def incTotalHitCount_def
                 onTriggeredBreakpoint_def
           split: prod.splits if_splits sum.splits)

theorem SetCurrentBreakpoint_hit_counters_witness:
  "thread_PC demo (os demoProcess) = Inr 0x131 \<and>
   Breakpoints demoProcess (0x131 - BreakpointSize demo) = Some 0 \<and>
   checkCondition demo (heap demoProcess 0) \<lparr>m_pc = 0x130, m_traps = [0x130], m_parked = False\<rparr> = (True, None) \<and>
   GetG demo \<lparr>m_pc = 0x130, m_traps = [0x130], m_parked = False\<rparr> = Inr \<lparr>G_ID = 7, G_DeferPC = 0\<rparr> \<and>
   TotalHitCount (heap demoProcess 0) = 0 \<and> HitCount (heap demoProcess 0) 7 = None \<and>
   TotalHitCount (heap (snd (snd (SetCurrentBreakpoint demo demoThread demoProcess))) 0) = 1 \<and>
   HitCount (heap (snd (snd (SetCurrentBreakpoint demo demoThread demoProcess))) 0) 7 = Some 1"
proof -
  obtain r t d where s: "SetCurrentBreakpoint demo demoThread demoProcess = (r, t, d)"
    by (cases "SetCurrentBreakpoint demo demoThread demoProcess") auto
  have h1: "thread_PC demo (os demoProcess) = Inr 0x131"
    by (simp add: demo_def demoProcess_def)
  have h2: "Breakpoints demoProcess (0x131 - BreakpointSize demo) = Some 0"
    by (simp add: demo_def demoProcess_def)
  have h3: "SetPC demo (Addr (heap demoProcess 0)) (os demoProcess) =
              (None, \<lparr>m_pc = 0x130, m_traps = [0x130], m_parked = False\<rparr>)"
    by (simp add: SetPC_def demo_def demoProcess_def demoBreakpoint_def)
  have h4: "checkCondition demo (heap demoProcess 0) \<lparr>m_pc = 0x130, m_traps = [0x130], m_parked = False\<rparr> = (True, None)"
    by (simp add: demo_def)
  have g: "GetG demo \<lparr>m_pc = 0x130, m_traps = [0x130], m_parked = False\<rparr> = Inr \<lparr>G_ID = 7, G_DeferPC = 0\<rparr>"
    by (simp add: demo_def)
  have c: "TotalHitCount (heap demoProcess 0) = 0 \<and> HitCount (heap demoProcess 0) 7 = None"
    by (simp add: demoProcess_def demoBreakpoint_def)
  from SetCurrentBreakpoint_hit_counters [OF h1 h2 h3 h4 s] h1 h2 h4 g c show ?thesis
    by (simp add: s)
qed

text \<open>
  The claim as the spec words it (no counter changes when the evaluation errors) fails for
  the evaluator above: the error is stored and both counters have moved.
\<close>

theorem SetCurrentBreakpoint_counts_on_error:
  "BreakpointConditionError (fst (snd (SetCurrentBreakpoint faultyCond demoThread demoProcess)))
     = Some (Failure ''error evaluating expression'') \<and>
   TotalHitCount (heap demoProcess 0) = 0 \<and>
   TotalHitCount (heap (snd (snd (SetCurrentBreakpoint faultyCond demoThread demoProcess))) 0) = 1 \<and>
   HitCount (heap demoProcess 0) 7 = None \<and>
   HitCount (heap (snd (snd (SetCurrentBreakpoint faultyCond demoThread demoProcess))) 0) 7 = Some 1"
  by (simp add: SetCurrentBreakpoint_def faultyCond_def demo_def demoProcess_def demoThread_def
        demoBreakpoint_def SetPC_def onTriggeredBreakpoint_def incHitCount_def incTotalHitCount_def)

subsection \<open>setNextBreakpoints on a blocked thread\<close>

text \<open>
  C7. For a thread that is blocked (parked in the scheduler), \<^verbatim>\<open>setNextBreakpoints\<close>
  returns \<^verbatim>\<open>ThreadBlockedError\<close> and the process is the one it was given: the breakpoint
  table is unchanged and the installer has not been called.
\<close>

theorem setNextBreakpoints_blocked:
  assumes "blocked x (os dbp)"
  shows "setNextBreakpoints x dbp = Some (Some ThreadBlockedError, dbp)"
  using assms by (simp add: setNextBreakpoints_def)

theorem setNextBreakpoints_blocked_witness:
  "blocked demo (os parkedProcess) \<and>
   setNextBreakpoints demo parkedProcess = Some (Some ThreadBlockedError, parkedProcess)"
  using setNextBreakpoints_blocked [of demo parkedProcess]
  by (simp add: demo_def parkedProcess_def)


subsection \<open>threadResume\<close>

text \<open>
  C2. A resume, in either mode, of a thread stopped at a breakpoint \<open>bp\<close>.
  If clearing the trap fails, that error is returned and nothing is executed. Otherwise
  the step primitive of the mode runs on the process as \<^verbatim>\<open>Clear\<close> left it (the trap is
  cleared before execution resumes), and on every way out (a returned error, a returned
  \<^verbatim>\<open>nil\<close>, the panic for an unknown mode) the breakpoint is written back after it, from
  the breakpoint's own address, file, line and function. What the call returns is what
  the step primitive returned: an error of the write-back goes to the log and nowhere else.
\<close>

theorem threadResume_from_breakpoint:
  assumes "CurrentBreakpoint thread = Some bp"
    and "threadResume x thread mode sig dbp = (r, thread', dbp')"
  shows
    "(\<forall>err w. Clear x (heap dbp bp) (os dbp) = (Some err, w) \<longrightarrow>
        r = Returned (Some err) \<and> thread' = thread \<and> dbp' = dbp\<lparr>os := w\<rparr>) \<and>
     (\<forall>w. Clear x (heap dbp bp) (os dbp) = (None, w) \<longrightarrow>
        (\<exists>w1.
           (mode = ModeStepInstruction \<and> r = Returned (fst (singleStep x w)) \<and>
              w1 = snd (singleStep x w) \<or>
            mode = ModeResume \<and> r = Returned (fst (resumeWithSig x sig w)) \<and>
              w1 = snd (resumeWithSig x sig w) \<or>
            mode = ModeOther \<and> r = Panicked ''unknown mode passed to threadResume'' \<and> w1 = w) \<and>
           (let b = heap dbp bp;
                loc = \<lparr>loc_PC = Addr b, loc_File = File b, loc_Line = Line b,
                       loc_Fn = LookupFunc x (FunctionName b)\<rparr>;
                res = createAndWriteBreakpoint x loc (Temp b) (BreakpointInstruction x) w1
            in os dbp' = snd res \<and>
               logged dbp' = logged dbp @ (case fst res of None \<Rightarrow> [] | Some nerr \<Rightarrow> [nerr]))))"
  using assms
  by (cases mode)
     (auto simp: threadResume_def resumeDispatch_def restoreBreakpoint_def Let_def
           split: prod.splits option.splits)

theorem threadResume_from_breakpoint_witness:
  "CurrentBreakpoint stoppedThread = Some 0 \<and>
   Clear brokenRestore (heap stoppedProcess 0) (os stoppedProcess)
     = (None, \<lparr>m_pc = 0x130, m_traps = [], m_parked = False\<rparr>) \<and>
   singleStep brokenRestore \<lparr>m_pc = 0x130, m_traps = [], m_parked = False\<rparr>
     = (None, \<lparr>m_pc = 0x131, m_traps = [], m_parked = False\<rparr>) \<and>
   fst (createAndWriteBreakpoint brokenRestore
          \<lparr>loc_PC = 0x130, loc_File = ''main.go'', loc_Line = 12,
           loc_Fn = Some \<lparr>Name = ''main.main''\<rparr>\<rparr>
          False [0xCC] \<lparr>m_pc = 0x131, m_traps = [], m_parked = False\<rparr>)
     = Some (Failure ''could not write breakpoint'') \<and>
   fst (threadResume brokenRestore stoppedThread ModeStepInstruction 0 stoppedProcess)
     = Returned None \<and>
   logged (snd (snd (threadResume brokenRestore stoppedThread ModeStepInstruction 0 stoppedProcess)))
     = [Failure ''could not write breakpoint'']"
proof -
  obtain r t d where
    s: "threadResume brokenRestore stoppedThread ModeStepInstruction 0 stoppedProcess = (r, t, d)"
    by (cases "threadResume brokenRestore stoppedThread ModeStepInstruction 0 stoppedProcess") auto
  have h: "CurrentBreakpoint stoppedThread = Some 0"
    by (simp add: stoppedThread_def)
  have c: "Clear brokenRestore (heap stoppedProcess 0) (os stoppedProcess)
             = (None, \<lparr>m_pc = 0x130, m_traps = [], m_parked = False\<rparr>)"
    by (simp add: brokenRestore_def demo_def stoppedProcess_def demoProcess_def demoBreakpoint_def)
  have st: "singleStep brokenRestore \<lparr>m_pc = 0x130, m_traps = [], m_parked = False\<rparr>
             = (None, \<lparr>m_pc = 0x131, m_traps = [], m_parked = False\<rparr>)"
    by (simp add: brokenRestore_def demo_def)
  have b: "heap stoppedProcess 0 = demoBreakpoint" "logged stoppedProcess = []"
    by (simp_all add: stoppedProcess_def demoProcess_def)
  have l: "LookupFunc brokenRestore ''main.main'' = Some \<lparr>Name = ''main.main''\<rparr>"
          "BreakpointInstruction brokenRestore = [0xCC]"
    by (simp_all add: brokenRestore_def demo_def)
  have w: "createAndWriteBreakpoint brokenRestore loc tmp instr m
             = (Some (Failure ''could not write breakpoint''), m)" for loc tmp instr m
    by (simp add: brokenRestore_def demo_def)
  from threadResume_from_breakpoint [OF h s] c
  have "r = Returned (fst (singleStep brokenRestore \<lparr>m_pc = 0x130, m_traps = [], m_parked = False\<rparr>))
        \<and> logged d = [Failure ''could not write breakpoint'']"
    by (simp add: b l w Let_def demoBreakpoint_def)
  with h c st w show ?thesis
    by (simp add: s)
qed

subsection \<open>setNextTempBreakpoints\<close>










text \<open>
  If the installer never fails with anything but \<^verbatim>\<open>BreakpointExistsError\<close>, every
  target is requested, in order, and \<^verbatim>\<open>nil\<close> is returned.
\<close>

lemma setNextTempBreakpoints_tolerant:
  assumes "\<And>a d. fst (installer x a d) = None \<or> fst (installer x a d) = Some BreakpointExistsError"
  shows "fst (setNextTempBreakpoints x curpc pcs dbp) = None \<and>
         requests (snd (setNextTempBreakpoints x curpc pcs dbp)) =
           requests dbp @ filter (\<lambda>p. p \<noteq> curpc \<and> p \<noteq> curpc - 1) pcs"
proof (induction pcs arbitrary: dbp)
  case Nil
  show ?case by simp
next
  case (Cons p pcs)
  obtain e d where i: "installer x p dbp = (e, d)"
    by (cases "installer x p dbp") auto
  with assms [of p dbp] have "e = None \<or> e = Some BreakpointExistsError"
    by simp
  with i Cons.IH show ?case
    by (auto simp: SetTempBreakpoint_def)
qed

subsection \<open>next on a goroutine that is exiting\<close>





subsection \<open>The scan for the line after the deferred function's\<close>

text \<open>
  The scan started after line \<open>l\<close> tries \<open>l + 1\<close>, \<open>l + 2\<close>, ... in turn. If the
  \<open>k\<close> first tries fail and the next one succeeds, it ends there.
\<close>

lemma scanDeferLine_found:
  "(\<forall>j<k. \<exists>e. LineToPC x f (l + 1 + of_nat j) = Inl e) \<Longrightarrow>
   LineToPC x f (l + 1 + of_nat k) = Inr dpc \<Longrightarrow>
   scanDeferLine x f l = Some (l + 1 + of_nat k, dpc)"
proof (induction k arbitrary: l)
  case 0
  then show ?case
    by (subst scanDeferLine.simps) simp
next
  case (Suc k)
  have shift: "l + 1 + of_nat (Suc j) = (l + 1) + 1 + of_nat j" for j
    by simp
  from Suc.prems(1) have "\<exists>e. LineToPC x f (l + 1 + of_nat 0) = Inl e"
    by blast
  then obtain e where e: "LineToPC x f (l + 1) = Inl e"
    by auto
  have "\<forall>j<k. \<exists>e. LineToPC x f ((l + 1) + 1 + of_nat j) = Inl e"
  proof (intro allI impI)
    fix j assume "j < k"
    then have "\<exists>e. LineToPC x f (l + 1 + of_nat (Suc j)) = Inl e"
      using Suc.prems(1) by blast
    then show "\<exists>e. LineToPC x f ((l + 1) + 1 + of_nat j) = Inl e"
      by (simp only: shift)
  qed
  moreover have "LineToPC x f ((l + 1) + 1 + of_nat k) = Inr dpc"
    using Suc.prems(2) by (simp only: shift)
  ultimately have ih: "scanDeferLine x f (l + 1) = Some ((l + 1) + 1 + of_nat k, dpc)"
    by (rule Suc.IH)
  have "scanDeferLine x f l = scanDeferLine x f (l + 1)"
    by (subst scanDeferLine.simps) (simp only: e sum.case)
  with ih show ?case
    by (simp only: shift)
qed

text \<open>Where the scan ends, the line it ends at maps to the PC it returns.\<close>

lemma scanDeferLine_sound:
  assumes "scanDeferLine x f l = Some y"
  shows "LineToPC x f (fst y) = Inr (snd y)"
proof -
  note r = scanDeferLine.raw_induct
             [where xa = "((x, f), l)" and y = y
                and P = "\<lambda>x f l y. LineToPC x f (fst y) = Inr (snd y)", simplified]
  show ?thesis
  proof (rule r)
    show "scanDeferLine x f l = Some y"
      by fact
  next
    fix scan :: "('a, 'b) ext \<Rightarrow> string \<Rightarrow> goint \<Rightarrow> (goint \<times> addr) option"
    fix x :: "('a, 'b) ext" and f lineno xa
    assume "\<And>f l b y. scan f l b = Some y \<Longrightarrow> LineToPC f l (fst y) = Inr (snd y)"
      and "(case LineToPC x f (lineno + 1) of
              Inl err \<Rightarrow> scan x f (lineno + 1)
            | Inr dpc \<Rightarrow> Some (lineno + 1, dpc)) = Some xa"
    then show "LineToPC x f (fst xa) = Inr (snd xa)"
      by (auto split: sum.splits)
  qed
qed

text \<open>Incrementing a 64-bit counter reaches every value: any line is some number of steps ahead.\<close>

lemma line_ahead: "\<exists>k. (n :: goint) = l + 1 + of_nat k"
proof
  show "n = l + 1 + of_nat (unat (n - (l + 1)))"
    by simp
qed

lemma scanDeferLine_some_line:
  assumes "LineToPC x f n = Inr dpc"
  shows "\<exists>k dpc'. scanDeferLine x f l = Some (l + 1 + of_nat k, dpc') \<and>
                  (\<forall>j<k. \<exists>e. LineToPC x f (l + 1 + of_nat j) = Inl e)"
proof -
  define valid where "valid k \<longleftrightarrow> (\<exists>d. LineToPC x f (l + 1 + of_nat k) = Inr d)" for k
  from line_ahead [of n l] assms have "\<exists>k. valid k"
    by (auto simp: valid_def)
  then have v: "valid (LEAST k. valid k)"
    by (rule LeastI_ex)
  then obtain d where d: "LineToPC x f (l + 1 + of_nat (LEAST k. valid k)) = Inr d"
    by (auto simp: valid_def)
  have f: "\<forall>j<(LEAST k. valid k). \<exists>e. LineToPC x f (l + 1 + of_nat j) = Inl e"
  proof (intro allI impI)
    fix j assume "j < (LEAST k. valid k)"
    then have "\<not> valid j"
      by (rule not_less_Least)
    then show "\<exists>e. LineToPC x f (l + 1 + of_nat j) = Inl e"
      by (cases "LineToPC x f (l + 1 + of_nat j)") (auto simp: valid_def)
  qed
  from scanDeferLine_found [OF f d] f show ?thesis
    by blast
qed

text \<open>
  In signed order, the lines strictly between \<open>l\<close> and a later line \<open>n\<close> are the ones
  the scan tries before \<open>n\<close>.
\<close>

lemma line_distance:
  fixes l n :: goint
  assumes "l <s n"
  shows "unat (n - (l + 1)) = nat (sint n - sint l - 1)"
proof -
  have ln: "sint l < sint n"
    using assms(1) by (simp only: word_sless_alt)
  have bl: "- (2 ^ 63) \<le> sint l" and bn: "sint n < 2 ^ 63"
    using sint_ge [of l] sint_lt [of n] by simp_all
  have bl': "sint l < 2 ^ 63" and bn': "- (2 ^ 63) \<le> sint n"
    using sint_lt [of l] sint_ge [of n] by simp_all
  define d where "d = sint n - sint l - 1"
  have d: "0 \<le> d" "d < 2 ^ 64"
    using ln bl bn bl' bn' by (simp_all add: d_def)
  have "n - (l + 1) = word_of_int d"
    by (simp add: d_def)
  then have "uint (n - (l + 1)) = take_bit 64 d"
    by (simp only: uint_word_of_int_eq) simp
  also have "\<dots> = d"
    using d by (simp only: take_bit_int_eq_self)
  finally show ?thesis
    by (simp only: d_def unat_eq_nat_uint)
qed

lemma lines_between:
  fixes l n :: goint
  assumes "l <s n" and "j < unat (n - (l + 1))"
  shows "l <s l + 1 + of_nat j \<and> l + 1 + of_nat j <s n"
proof -
  have ln: "sint l < sint n"
    using assms(1) by (simp only: word_sless_alt)
  have bl: "- (2 ^ 63) \<le> sint l" and bn: "sint n < 2 ^ 63"
    using sint_ge [of l] sint_lt [of n] by simp_all
  from assms(2) have j: "int j < sint n - sint l - 1"
    using line_distance [OF assms(1)] by linarith
  define i where "i = sint l + 1 + int j"
  have i: "- (2 ^ 63) \<le> i" "i < 2 ^ 63"
    using j bl bn by (simp_all add: i_def)
  have "l + 1 + of_nat j = word_of_int i"
    by (simp add: i_def)
  then have "sint (l + 1 + of_nat j) = signed_take_bit 63 i"
    by (simp only: sint_sbintrunc') simp
  also have "\<dots> = i"
    using i by (simp only: signed_take_bit_int_eq_self)
  finally have "sint (l + 1 + of_nat j) = sint l + 1 + int j"
    by (simp only: i_def)
  with j show ?thesis
    by (simp only: word_sless_alt) linarith
qed

text \<open>
  C9, as the code has it. \<^verbatim>\<open>lineno\<close> is a machine integer, so \<^verbatim>\<open>lineno++\<close> wraps and
  the scan visits every line number, the ones up to the deferred function's own line last.
  Hence the scan ends if and only if some line of the file, greater or not, maps to a PC.
  When a line strictly greater than the deferred function's maps to a PC, the scan ends at
  the first such line (with its PC). When no line of the file maps to a PC, the loop
  never ends.
\<close>

theorem scanDeferLine_terminates_iff:
  "((\<exists>y. scanDeferLine x f l = Some y) \<longleftrightarrow> (\<exists>n dpc. LineToPC x f n = Inr dpc)) \<and>
   (\<forall>n dpc. l <s n \<and> LineToPC x f n = Inr dpc \<and>
            (\<forall>m. l <s m \<and> m <s n \<longrightarrow> (\<exists>e. LineToPC x f m = Inl e)) \<longrightarrow>
            scanDeferLine x f l = Some (n, dpc)) \<and>
   ((\<forall>n. \<exists>e. LineToPC x f n = Inl e) \<longrightarrow> scanDeferLine x f l = None)"
proof (intro conjI allI impI)
  show "(\<exists>y. scanDeferLine x f l = Some y) \<longleftrightarrow> (\<exists>n dpc. LineToPC x f n = Inr dpc)"
  proof
    assume "\<exists>y. scanDeferLine x f l = Some y"
    then obtain y where "scanDeferLine x f l = Some y"
      by auto
    then have "LineToPC x f (fst y) = Inr (snd y)"
      by (rule scanDeferLine_sound)
    then show "\<exists>n dpc. LineToPC x f n = Inr dpc"
      by blast
  next
    assume "\<exists>n dpc. LineToPC x f n = Inr dpc"
    then obtain n dpc where "LineToPC x f n = Inr dpc"
      by blast
    from scanDeferLine_some_line [OF this, of l] show "\<exists>y. scanDeferLine x f l = Some y"
      by blast
  qed
next
  fix n dpc
  assume a: "l <s n \<and> LineToPC x f n = Inr dpc \<and>
             (\<forall>m. l <s m \<and> m <s n \<longrightarrow> (\<exists>e. LineToPC x f m = Inl e))"
  have "\<forall>j<unat (n - (l + 1)). \<exists>e. LineToPC x f (l + 1 + of_nat j) = Inl e"
    using a lines_between [of l n] by blast
  moreover have "LineToPC x f (l + 1 + of_nat (unat (n - (l + 1)))) = Inr dpc"
    using a by simp
  ultimately have "scanDeferLine x f l = Some (l + 1 + of_nat (unat (n - (l + 1))), dpc)"
    by (rule scanDeferLine_found)
  then show "scanDeferLine x f l = Some (n, dpc)"
    by simp
next
  assume none: "\<forall>n. \<exists>e. LineToPC x f n = Inl e"
  show "scanDeferLine x f l = None"
  proof (cases "scanDeferLine x f l")
    case None
    then show ?thesis .
  next
    case (Some y)
    from Some have "LineToPC x f (fst y) = Inr (snd y)"
      by (rule scanDeferLine_sound)
    moreover from none obtain e where "LineToPC x f (fst y) = Inl e"
      by blast
    ultimately show ?thesis
      by simp
  qed
qed

theorem scanDeferLine_terminates_iff_witness:
  "42 <s (43 :: goint) \<and> LineToPC demo ''main.go'' 43 = Inr 0x500 \<and>
   \<not> (\<exists>m :: goint. 42 <s m \<and> m <s 43) \<and>
   scanDeferLine demo ''main.go'' 42 = Some (43, 0x500)"
proof -
  have s: "(42 :: goint) <s 43"
    by (simp add: word_sless_alt)
  have v: "LineToPC demo ''main.go'' 43 = Inr 0x500"
    by (simp add: demo_def)
  have b: "\<not> (\<exists>m :: goint. 42 <s m \<and> m <s 43)"
  proof
    assume "\<exists>m :: goint. 42 <s m \<and> m <s 43"
    then obtain m :: goint where "42 <s m" "m <s 43"
      by blast
    then have "42 < sint m" "sint m < 43"
      by (simp_all add: word_sless_alt)
    then show False
      by simp
  qed
  from scanDeferLine_terminates_iff [of demo "''main.go''" 42] s v b
  have "scanDeferLine demo ''main.go'' 42 = Some (43, 0x500)"
    by blast
  with s v b show ?thesis
    by blast
qed

text \<open>
  The claim as worded (the scan ends only if a line strictly greater than the deferred
  function's maps to a PC) fails where line 42 is the only line with code and the scan
  starts after line 42: no greater line maps to a PC, and the scan still ends, at line 42
  itself, once the counter has wrapped around.
\<close>

theorem scanDeferLine_wraps_around:
  "scanDeferLine oneLine ''main.go'' 42 = Some (42, 0x400) \<and>
   \<not> (\<exists>n dpc. 42 <s n \<and> LineToPC oneLine ''main.go'' n = Inr dpc)"
proof
  have v: "LineToPC oneLine f n = (if n = 42 then Inr 0x400 else Inl (Failure ''no code at this line''))"
    for f n
    by (simp add: oneLine_def demo_def)
  have w: "(42 :: goint) + 1 + of_nat (2 ^ 64 - 1) = 42"
    by simp
  have "\<forall>j<2 ^ 64 - 1. \<exists>e. LineToPC oneLine ''main.go'' (42 + 1 + of_nat j) = Inl e"
  proof (intro allI impI)
    fix j :: nat assume j: "j < 2 ^ 64 - 1"
    have "(of_nat (Suc j) :: goint) \<noteq> 0"
    proof
      assume "(of_nat (Suc j) :: goint) = 0"
      then have "2 ^ 64 dvd Suc j"
        by (simp only: word_of_nat_eq_0_iff) simp
      then have "2 ^ 64 \<le> Suc j"
        by (rule dvd_imp_le) simp
      with j show False
        by simp
    qed
    then have "(42 :: goint) + 1 + of_nat j \<noteq> 42"
      by (simp add: add.commute add.left_commute)
    then show "\<exists>e. LineToPC oneLine ''main.go'' (42 + 1 + of_nat j) = Inl e"
      by (simp add: v)
  qed
  moreover have "LineToPC oneLine ''main.go'' (42 + 1 + of_nat (2 ^ 64 - 1)) = Inr 0x400"
    by (simp only: w v) simp
  ultimately have "scanDeferLine oneLine ''main.go'' 42 = Some (42 + 1 + of_nat (2 ^ 64 - 1), 0x400)"
    by (rule scanDeferLine_found)
  then show "scanDeferLine oneLine ''main.go'' 42 = Some (42, 0x400)"
    by (simp only: w)
next
  show "\<not> (\<exists>n dpc. 42 <s n \<and> LineToPC oneLine ''main.go'' n = Inr dpc)"
    by (auto simp: oneLine_def demo_def split: if_splits)
qed


subsection \<open>The PC range of cnext and of next\<close>

text \<open>
  Both functions ask the line table for the PCs between two addresses, starting at the
  beginning of the frame: \<^verbatim>\<open>next\<close> up to \<^verbatim>\<open>fde.End() - 1\<close>, \<^verbatim>\<open>cnext\<close> up to
  \<^verbatim>\<open>fde.End()\<close>.
\<close>

lemma cnext_candidates:
  assumes "ReturnAddress x (os dbp) = Inr ret"
  shows "cnext x curpc fde file dbp =
           setNextTempBreakpoints x curpc (AllPCsBetween x (Begin fde) (End fde) file @ [ret]) dbp"
  using assms by (simp add: cnext_def)

lemma thread_next_candidates:
  assumes "GetG x (os dbp) = Inr g" and "G_DeferPC g = 0"
    and "ReturnAddress x (os dbp) = Inr ret" and "\<not> isGoexit (PCToFunc x ret)"
  shows "thread_next x curloc fde dbp =
           Some (setNextTempBreakpoints x (loc_PC curloc)
                   (AllPCsBetween x (Begin fde) (End fde - 1) (loc_File curloc) @ [ret]) dbp)"
  using assms
  by (simp add: thread_next_def setDeferBreakpoint_def nextFromReturn_def
        removeDeferBreakpoint_def split: prod.splits)

text \<open>
  C6 on the small traced process. The frame is \<open>[0x100, 0x200)\<close>, the thread is at
  \<open>0x130\<close> and the line table has a PC at \<open>0x200\<close>, the first address after the frame.
  In a Go file (\<^verbatim>\<open>next\<close>) the requested breakpoints are \<open>0x110\<close>, \<open>0x150\<close> and the return
  address \<open>0x300\<close>. In a C file (\<^verbatim>\<open>cnext\<close>) \<open>0x200\<close> is requested as well, though the
  frame does not cover it: the two functions do not collect over the same range.
\<close>

theorem cnext_collects_past_frame_end:
  "map_option (\<lambda>rd. (fst rd, requests (snd rd))) (setNextBreakpoints demo plainProcess)
     = Some (None, [0x110, 0x150, 0x300]) \<and>
   map_option (\<lambda>rd. (fst rd, requests (snd rd))) (setNextBreakpoints cSource plainProcess)
     = Some (None, [0x110, 0x150, 0x200, 0x300]) \<and>
   FDEForPC cSource 0x130 = Inr demoFrame \<and> Begin demoFrame = 0x100 \<and> End demoFrame = 0x200 \<and>
   Cover demoFrame 0x200 = False"
proof -
  have go: "filepath_Ext ''main.go'' = ''.go''" and c: "filepath_Ext ''main.c'' = ''.c''"
    by (simp_all add: filepath_Ext_def)
  have lg: "threadLocation demo plainProcess =
              Inr \<lparr>loc_PC = 0x130, loc_File = ''main.go'', loc_Line = 10,
                   loc_Fn = Some \<lparr>Name = ''main.main''\<rparr>\<rparr>"
    by (simp add: threadLocation_def demo_def plainProcess_def)
  have lc: "threadLocation cSource plainProcess =
              Inr \<lparr>loc_PC = 0x130, loc_File = ''main.c'', loc_Line = 10,
                   loc_Fn = Some \<lparr>Name = ''main''\<rparr>\<rparr>"
    by (simp add: threadLocation_def cSource_def demo_def plainProcess_def)
  have bg: "\<not> blocked demo (os plainProcess)" and bc: "\<not> blocked cSource (os plainProcess)"
    by (simp_all add: cSource_def demo_def plainProcess_def)
  have fg: "FDEForPC demo 0x130 = Inr demoFrame" and fc: "FDEForPC cSource 0x130 = Inr demoFrame"
    by (simp_all add: cSource_def demo_def)
  have gg: "GetG demo w = Inr \<lparr>G_ID = 7, G_DeferPC = 0\<rparr>" for w
    by (simp add: demo_def)
  have rg: "ReturnAddress demo w = Inr 0x300" and rc: "ReturnAddress cSource w = Inr 0x300" for w
    by (simp_all add: cSource_def demo_def)
  have pg: "PCToFunc demo 0x300 = Some \<lparr>Name = ''main.main''\<rparr>"
    by (simp add: demo_def)
  have ag: "AllPCsBetween demo (Begin demoFrame) (End demoFrame - 1) ''main.go''
              = [0x110, 0x130, 0x150]"
    by (simp add: demo_def demoFrame_def)
  have ac: "AllPCsBetween cSource (Begin demoFrame) (End demoFrame) ''main.c''
              = [0x110, 0x130, 0x150, 0x200]"
    by (simp add: cSource_def demo_def demoFrame_def)
  have ig: "installer demo = tableInstaller" and ic: "installer cSource = tableInstaller"
    by (simp_all add: cSource_def demo_def)
  have cv: "\<not> Cover demoFrame 0x200" "Cover demoFrame 0x110"
    by (simp_all add: demoFrame_def)
  have n1: "setNextBreakpoints demo plainProcess =
              thread_next demo \<lparr>loc_PC = 0x130, loc_File = ''main.go'', loc_Line = 10,
                                loc_Fn = Some \<lparr>Name = ''main.main''\<rparr>\<rparr> demoFrame plainProcess"
    by (simp add: setNextBreakpoints_def bg lg go fg)
  have n2: "thread_next demo \<lparr>loc_PC = 0x130, loc_File = ''main.go'', loc_Line = 10,
                              loc_Fn = Some \<lparr>Name = ''main.main''\<rparr>\<rparr> demoFrame plainProcess =
              Some (setNextTempBreakpoints demo 0x130 [0x110, 0x130, 0x150, 0x300] plainProcess)"
    by (simp add: thread_next_def gg setDeferBreakpoint_def nextFromReturn_def rg pg ag cv
          removeDeferBreakpoint_def isGoexit_def)
  have n3: "fst (setNextTempBreakpoints demo 0x130 [0x110, 0x130, 0x150, 0x300] plainProcess) = None \<and>
            requests (snd (setNextTempBreakpoints demo 0x130 [0x110, 0x130, 0x150, 0x300] plainProcess))
              = [0x110, 0x150, 0x300]"
    by (simp add: SetTempBreakpoint_def ig tableInstaller_def plainProcess_def)
  have c1: "setNextBreakpoints cSource plainProcess =
              Some (cnext cSource 0x130 demoFrame ''main.c'' plainProcess)"
    by (simp add: setNextBreakpoints_def bc lc c fc)
  have c2: "cnext cSource 0x130 demoFrame ''main.c'' plainProcess =
              setNextTempBreakpoints cSource 0x130 [0x110, 0x130, 0x150, 0x200, 0x300] plainProcess"
    by (simp add: cnext_def rc ac)
  have c3: "fst (setNextTempBreakpoints cSource 0x130 [0x110, 0x130, 0x150, 0x200, 0x300] plainProcess) = None \<and>
            requests (snd (setNextTempBreakpoints cSource 0x130 [0x110, 0x130, 0x150, 0x200, 0x300] plainProcess))
              = [0x110, 0x150, 0x200, 0x300]"
    by (simp add: SetTempBreakpoint_def ic tableInstaller_def plainProcess_def)
  from n3 have n: "map_option (\<lambda>rd. (fst rd, requests (snd rd))) (setNextBreakpoints demo plainProcess)
             = Some (None, [0x110, 0x150, 0x300])"
    by (simp only: n1 n2 option.map)
  from c3 have cn: "map_option (\<lambda>rd. (fst rd, requests (snd rd))) (setNextBreakpoints cSource plainProcess)
             = Some (None, [0x110, 0x150, 0x200, 0x300])"
    by (simp only: c1 c2 option.map)
  have fr: "Begin demoFrame = 0x100" "End demoFrame = 0x200" "Cover demoFrame 0x200 = False"
    by (simp_all add: demoFrame_def)
  from n cn fc fr show ?thesis
    by blast
qed


end
